theory Spec2Isabelle
  imports Main "HOL-Library.AList"
begin

section \<open>JavaScript values\<close>

text \<open>
  The payloads that \<^verbatim>\<open>src/lib/api.js\<close> reshapes are JSON-like JavaScript values. Numbers
  are modelled as integers (identifiers and counters; fractions and NaN do not occur in
  what is verified here). An object is an association list of its own properties, read
  with \<open>map_of\<close>: \<open>AList.update\<close> is property assignment (an existing key keeps its place,
  a new key is appended) and \<open>AList.delete\<close> is the \<^verbatim>\<open>delete\<close> operator.
\<close>

datatype jsval =
    JUndefined
  | JNull
  | JBool bool
  | JNum int
  | JStr string
  | JArr "jsval list"
  | JObj "(string \<times> jsval) list"

type_synonym obj = "(string \<times> jsval) list"

text \<open>ToBoolean: what \<^verbatim>\<open>if (v)\<close>, \<^verbatim>\<open>!v\<close>, \<^verbatim>\<open>v ? a : b\<close> and \<^verbatim>\<open>v || w\<close> test.
  Every array and every object is truthy, the empty ones too.\<close>

fun truthy :: "jsval \<Rightarrow> bool" where
  "truthy JUndefined = False"
| "truthy JNull = False"
| "truthy (JBool b) = b"
| "truthy (JNum n) = (n \<noteq> 0)"
| "truthy (JStr s) = (s \<noteq> [])"
| "truthy (JArr xs) = True"
| "truthy (JObj ps) = True"

text \<open>\<^verbatim>\<open>a || b\<close> on values.\<close>

definition js_or :: "jsval \<Rightarrow> jsval \<Rightarrow> jsval" where
  "js_or a b = (if truthy a then a else b)"

text \<open>\<^verbatim>\<open>o.k\<close> on an object: a missing property reads \<^verbatim>\<open>undefined\<close>.\<close>

definition get :: "obj \<Rightarrow> string \<Rightarrow> jsval" where
  "get ps k = (case map_of ps k of None \<Rightarrow> JUndefined | Some v \<Rightarrow> v)"

section \<open>Thrown values\<close>

record response =
  data :: jsval
  status :: nat

text \<open>What the HTTP library rejects with: an error object carrying \<^verbatim>\<open>code\<close>,
  \<^verbatim>\<open>message\<close> and, when the server answered, \<^verbatim>\<open>response\<close>.\<close>

record axios_error =
  code :: jsval
  message :: string
  response :: "response option"

datatype thrown =
    ThrownUndefined
  | TypeError
  | Axios axios_error

text \<open>\<^verbatim>\<open>v.k\<close> on an arbitrary value, for the keys this program reads from payload entries
  (\<^verbatim>\<open>user_id\<close>, \<^verbatim>\<open>is_primary\<close>; neither is a built-in property of a string or an
  array): reading a property of \<^verbatim>\<open>undefined\<close> or \<^verbatim>\<open>null\<close> raises a TypeError, a
  primitive or an array has no such property.\<close>

fun read_prop :: "jsval \<Rightarrow> string \<Rightarrow> thrown + jsval" where
  "read_prop JUndefined k = Inl TypeError"
| "read_prop JNull k = Inl TypeError"
| "read_prop (JObj ps) k = Inr (get ps k)"
| "read_prop v k = Inr JUndefined"

section \<open>Field transforms of createOKR and updateOKR\<close>

text \<open>
  \<^verbatim>\<open>createOKR\<close> (api.js 245-263) builds
  \<^verbatim>\<open>{...okrData, name: okrData.title, assigned_user_ids: okrData.assigned_user_ids || [],
     primary_user_id: okrData.primary_user_id || null,
     business_unit_ids: okrData.business_unit_ids || []}\<close>
  and then runs \<^verbatim>\<open>if (transformedData.title) delete transformedData.title\<close>.
  The payload \<open>okrData\<close> is an object.
\<close>

definition createOKR_transformedData :: "obj \<Rightarrow> obj" where
  "createOKR_transformedData okrData =
     (let transformedData =
            AList.update ''business_unit_ids'' (js_or (get okrData ''business_unit_ids'') (JArr []))
           (AList.update ''primary_user_id'' (js_or (get okrData ''primary_user_id'') JNull)
           (AList.update ''assigned_user_ids'' (js_or (get okrData ''assigned_user_ids'') (JArr []))
           (AList.update ''name'' (get okrData ''title'') okrData)))
      in if truthy (get transformedData ''title'')
         then AList.delete ''title'' transformedData
         else transformedData)"

text \<open>\<^verbatim>\<open>users.map(user => user.user_id)\<close> on the elements of an array.\<close>

primrec map_user_id :: "jsval list \<Rightarrow> thrown + jsval list" where
  "map_user_id [] = Inr []"
| "map_user_id (user # users) =
     (case read_prop user ''user_id'' of
        Inl e \<Rightarrow> Inl e
      | Inr v \<Rightarrow> (case map_user_id users of Inl e \<Rightarrow> Inl e | Inr vs \<Rightarrow> Inr (v # vs)))"

text \<open>\<^verbatim>\<open>users.find(user => user.is_primary)\<close>: the first element whose
  \<^verbatim>\<open>is_primary\<close> is truthy, \<^verbatim>\<open>undefined\<close> when there is none.\<close>

primrec find_is_primary :: "jsval list \<Rightarrow> thrown + jsval" where
  "find_is_primary [] = Inr JUndefined"
| "find_is_primary (user # users) =
     (case read_prop user ''is_primary'' of
        Inl e \<Rightarrow> Inl e
      | Inr b \<Rightarrow> if truthy b then Inr user else find_is_primary users)"

text \<open>\<^verbatim>\<open>okrData.assigned_users ? okrData.assigned_users.map(user => user.user_id) : []\<close>.
  Calling \<^verbatim>\<open>.map\<close> on a truthy value that is not an array raises a TypeError.\<close>

definition assigned_user_ids_of :: "obj \<Rightarrow> thrown + jsval" where
  "assigned_user_ids_of okrData =
     (let assigned_users = get okrData ''assigned_users''
      in if truthy assigned_users then
           (case assigned_users of
              JArr users \<Rightarrow> (case map_user_id users of Inl e \<Rightarrow> Inl e | Inr ids \<Rightarrow> Inr (JArr ids))
            | _ \<Rightarrow> Inl TypeError)
         else Inr (JArr []))"

text \<open>\<^verbatim>\<open>okrData.assigned_users ? okrData.assigned_users.find(user => user.is_primary)?.user_id : null\<close>.\<close>

definition primary_user_id_of :: "obj \<Rightarrow> thrown + jsval" where
  "primary_user_id_of okrData =
     (let assigned_users = get okrData ''assigned_users''
      in if truthy assigned_users then
           (case assigned_users of
              JArr users \<Rightarrow>
                (case find_is_primary users of
                   Inl e \<Rightarrow> Inl e
                 | Inr JUndefined \<Rightarrow> Inr JUndefined
                 | Inr JNull \<Rightarrow> Inr JUndefined
                 | Inr user \<Rightarrow> read_prop user ''user_id'')
            | _ \<Rightarrow> Inl TypeError)
         else Inr JNull)"

text \<open>
  \<^verbatim>\<open>updateOKR\<close> (api.js 281-305): the object literal is evaluated field by field, an
  exception in a field aborts the call before anything is sent; then
  \<^verbatim>\<open>if (transformedData.assigned_users) delete transformedData.assigned_users\<close> and
  \<^verbatim>\<open>if (transformedData.business_units && transformedData.business_unit_ids)
     delete transformedData.business_units\<close>.
\<close>

definition updateOKR_transformedData :: "obj \<Rightarrow> thrown + obj" where
  "updateOKR_transformedData okrData =
     (case assigned_user_ids_of okrData of
        Inl e \<Rightarrow> Inl e
      | Inr assigned_user_ids \<Rightarrow>
     (case primary_user_id_of okrData of
        Inl e \<Rightarrow> Inl e
      | Inr primary_user_id \<Rightarrow>
     (let business_unit_ids =
            js_or (get okrData ''business_unit_ids'') (js_or (get okrData ''business_units'') (JArr []));
          t0 = AList.update ''business_unit_ids'' business_unit_ids
              (AList.update ''primary_user_id'' primary_user_id
              (AList.update ''assigned_user_ids'' assigned_user_ids okrData));
          t1 = (if truthy (get t0 ''assigned_users'') then AList.delete ''assigned_users'' t0 else t0);
          t2 = (if truthy (get t1 ''business_units'') \<and> truthy (get t1 ''business_unit_ids'')
                then AList.delete ''business_units'' t1 else t1)
      in Inr t2)))"

section \<open>The ambient world: storage, network, time\<close>

datatype http_method = GET | POST | PUT | DELETE

text \<open>The request configuration handed to the transport: the defaults of
  \<^verbatim>\<open>axios.create\<close> (api.js 8-15) plus the verb, the path and the body of the call.\<close>

record config =
  baseURL :: string
  url :: string
  verb :: http_method
  headers :: "(string \<times> string) list"
  payload :: jsval
  timeout :: nat

text \<open>What an observer sees of a run, in order: a request handed to the network, or a
  timer of so many milliseconds awaited.\<close>

datatype event = Request config | Sleep nat

text \<open>
  \<open>localStorage\<close> is \<open>None\<close> where \<^verbatim>\<open>typeof window === 'undefined'\<close> (server-side
  rendering) and the browser's string-to-string store otherwise. \<open>server\<close> is the
  behaviour of the network and backend: the outcome of the \<open>n\<close>-th request dispatched
  (counting from 0), which may depend on the request. \<open>trace\<close> is the log of events so far.
\<close>

record world =
  NEXT_PUBLIC_API_URL :: "string option"
  localStorage :: "(string \<rightharpoonup> string) option"
  server :: "nat \<Rightarrow> config \<Rightarrow> axios_error + response"
  trace :: "event list"

fun sent :: "event list \<Rightarrow> config list" where
  "sent [] = []"
| "sent (Request c # evs) = c # sent evs"
| "sent (Sleep ms # evs) = sent evs"

fun slept :: "event list \<Rightarrow> nat list" where
  "slept [] = []"
| "slept (Request c # evs) = slept evs"
| "slept (Sleep ms # evs) = ms # slept evs"

text \<open>\<^verbatim>\<open>process.env.NEXT_PUBLIC_API_URL || 'http://localhost:8000'\<close>\<close>

definition API_BASE_URL :: "world \<Rightarrow> string" where
  "API_BASE_URL w =
     (case NEXT_PUBLIC_API_URL w of
        None \<Rightarrow> ''http://localhost:8000''
      | Some u \<Rightarrow> if u \<noteq> [] then u else ''http://localhost:8000'')"

text \<open>The request interceptor (api.js 18-31). \<^verbatim>\<open>localStorage.getItem\<close> gives
  \<^verbatim>\<open>null\<close> for a missing key; \<^verbatim>\<open>if (token)\<close> also rejects the empty string.\<close>

definition request_interceptor :: "world \<Rightarrow> config \<Rightarrow> config" where
  "request_interceptor w config =
     (case localStorage w of
        None \<Rightarrow> config
      | Some storage \<Rightarrow>
          (case storage ''auth_token'' of
             None \<Rightarrow> config
           | Some token \<Rightarrow>
               if token \<noteq> []
               then config\<lparr>headers := AList.update ''Authorization'' (''Bearer '' @ token) (headers config)\<rparr>
               else config))"

text \<open>Handing the request to the network: the event is logged and the outcome is what the
  server answers to this request at this point. A failure surfaces as the library's error
  object.\<close>

definition dispatch :: "config \<Rightarrow> world \<Rightarrow> (thrown + response) \<times> world" where
  "dispatch c w =
     ((case server w (length (sent (trace w))) c of
         Inl error \<Rightarrow> Inl (Axios error)
       | Inr res \<Rightarrow> Inr res),
      w\<lparr>trace := trace w @ [Request c]\<rparr>)"

text \<open>One call of the client. The response interceptor (api.js 34-62) only logs: it
  returns the response, or rejects with the same error.\<close>

definition apiClient_request :: "http_method \<Rightarrow> string \<Rightarrow> jsval \<Rightarrow> world \<Rightarrow> (thrown + response) \<times> world" where
  "apiClient_request m u d w =
     dispatch
       (request_interceptor w
          \<lparr>baseURL = API_BASE_URL w, url = u, verb = m,
           headers = [(''Content-Type'', ''application/json'')],
           payload = d, timeout = 15000\<rparr>)
       w"

definition apiClient_get :: "string \<Rightarrow> world \<Rightarrow> (thrown + response) \<times> world" where
  "apiClient_get u = apiClient_request GET u JUndefined"

definition apiClient_post :: "string \<Rightarrow> jsval \<Rightarrow> world \<Rightarrow> (thrown + response) \<times> world" where
  "apiClient_post u d = apiClient_request POST u d"

definition apiClient_put :: "string \<Rightarrow> jsval \<Rightarrow> world \<Rightarrow> (thrown + response) \<times> world" where
  "apiClient_put u d = apiClient_request PUT u d"

definition apiClient_delete :: "string \<Rightarrow> world \<Rightarrow> (thrown + response) \<times> world" where
  "apiClient_delete u = apiClient_request DELETE u JUndefined"

section \<open>The retry combinator\<close>

text \<open>\<^verbatim>\<open>await new Promise(resolve => setTimeout(resolve, delayMs))\<close>\<close>

definition await_timeout :: "nat \<Rightarrow> world \<Rightarrow> world" where
  "await_timeout delayMs w = w\<lparr>trace := trace w @ [Sleep delayMs]\<rparr>"

text \<open>\<^verbatim>\<open>error.code\<close> on the caught value.\<close>

fun error_code :: "thrown \<Rightarrow> thrown + jsval" where
  "error_code ThrownUndefined = Inl TypeError"
| "error_code TypeError = Inr JUndefined"
| "error_code (Axios e) = Inr (code e)"

text \<open>
  The loop of \<^verbatim>\<open>apiCallWithRetry\<close> (api.js 67-82), from iteration \<open>attempt\<close> on, with
  the current \<open>lastError\<close>. An exception raised inside the \<^verbatim>\<open>catch\<close> block leaves the
  function. After the loop: \<^verbatim>\<open>throw lastError\<close>.
\<close>

function retry_loop ::
  "(world \<Rightarrow> (thrown + 'a) \<times> world) \<Rightarrow> nat \<Rightarrow> nat \<Rightarrow> nat \<Rightarrow> thrown \<Rightarrow> world \<Rightarrow> (thrown + 'a) \<times> world" where
  "retry_loop apiCall retryCount initialDelayMs attempt lastError w =
     (if attempt < retryCount then
        (case apiCall w of
           (Inr r, w') \<Rightarrow> (Inr r, w')
         | (Inl error, w') \<Rightarrow>
             (case error_code error of
                Inl e \<Rightarrow> (Inl e, w')
              | Inr c \<Rightarrow>
                  if \<not> truthy c \<or> (c \<noteq> JStr ''ERR_NETWORK'' \<and> c \<noteq> JStr ''ECONNABORTED'')
                  then (Inl error, w')
                  else (let delayMs = initialDelayMs * 2 ^ attempt
                        in retry_loop apiCall retryCount initialDelayMs (attempt + 1) error
                             (await_timeout delayMs w'))))
      else (Inl lastError, w))"
  by pat_completeness auto
termination
  by (relation "measure (\<lambda>(apiCall, retryCount, initialDelayMs, attempt, lastError, w). retryCount - attempt)") auto

definition apiCallWithRetry ::
  "(world \<Rightarrow> (thrown + 'a) \<times> world) \<Rightarrow> nat \<Rightarrow> nat \<Rightarrow> world \<Rightarrow> (thrown + 'a) \<times> world" where
  "apiCallWithRetry apiCall retryCount initialDelayMs w =
     retry_loop apiCall retryCount initialDelayMs 0 ThrownUndefined w"

section \<open>The operations of the api object\<close>

text \<open>
  One constructor per method of \<^verbatim>\<open>api\<close> (api.js 86-533), under the method's name.
  Identifiers that are spliced into a path enter as the text the template literal
  renders; request bodies are values. Console output is not modelled.
\<close>

datatype api_call =
    checkBackendConnection
  | login jsval
  | getDepartments
  | getBusinessUnits
  | getBusinessUnit string
  | createBusinessUnit jsval
  | updateBusinessUnit string jsval
  | deleteBusinessUnit string
  | getOKRBusinessUnits string
  | assignBusinessUnitsToOKR string jsval
  | getUsers
  | getUser string
  | getOKRs
  | getOKR string
  | createOKR obj
  | updateOKR string obj
  | deleteOKR string
  | getChildOKRs string
  | getOKRAssignedUsers string
  | addUserToOKR string jsval
  | removeUserFromOKR string string
  | setPrimaryUserForOKR string jsval
  | getTasks
  | getTask string
  | createTask jsval
  | updateTask string jsval
  | deleteTask string
  | getOKRTasks string
  | getUserOKRs string
  | getUserTasks string
  | getTaskChallenges
  | getTaskChallenge string
  | createTaskChallenge jsval
  | updateTaskChallenge string jsval
  | deleteTaskChallenge string
  | getTaskChallengesByTask string

text \<open>The body shared by most methods:
  \<^verbatim>\<open>try { const response = await ...; return response.data; } catch (error) { throw error; }\<close>\<close>

definition response_data :: "(thrown + response) \<times> world \<Rightarrow> (thrown + jsval) \<times> world" where
  "response_data r =
     (case r of
        (Inr res, w') \<Rightarrow> (Inr (data res), w')
      | (Inl error, w') \<Rightarrow> (Inl error, w'))"

text \<open>The body of \<^verbatim>\<open>getDepartments\<close> and \<^verbatim>\<open>getUsers\<close>:
  \<^verbatim>\<open>try { ...; return response.data || []; } catch (error) { return []; }\<close>\<close>

definition response_data_or_empty :: "(thrown + response) \<times> world \<Rightarrow> (thrown + jsval) \<times> world" where
  "response_data_or_empty r =
     (case r of
        (Inr res, w') \<Rightarrow> (Inr (js_or (data res) (JArr [])), w')
      | (Inl error, w') \<Rightarrow> (Inr (JArr []), w'))"

fun api :: "api_call \<Rightarrow> world \<Rightarrow> (thrown + jsval) \<times> world" where
  "api checkBackendConnection w =
     (case apiClient_get ''/api/'' w of
        (Inr res, w') \<Rightarrow> (Inr (JBool True), w')
      | (Inl error, w') \<Rightarrow>
          (case error of
             ThrownUndefined \<Rightarrow> (Inl TypeError, w')
           | _ \<Rightarrow> (Inr (JBool False), w')))"
| "api (login credentials) w =
     response_data (apiCallWithRetry (apiClient_post ''/api/token/'' credentials) 3 1000 w)"
| "api getDepartments w =
     response_data_or_empty (apiCallWithRetry (apiClient_get ''/api/departments/'') 3 1000 w)"
| "api getBusinessUnits w = response_data (apiClient_get ''/api/business-units/'' w)"
| "api (getBusinessUnit businessUnitId) w =
     response_data (apiClient_get (''/api/business-units/'' @ businessUnitId @ ''/'') w)"
| "api (createBusinessUnit businessUnitData) w =
     response_data (apiClient_post ''/api/business-units/'' businessUnitData w)"
| "api (updateBusinessUnit businessUnitId businessUnitData) w =
     response_data (apiClient_put (''/api/business-units/'' @ businessUnitId @ ''/'') businessUnitData w)"
| "api (deleteBusinessUnit businessUnitId) w =
     response_data (apiClient_delete (''/api/business-units/'' @ businessUnitId @ ''/'') w)"
| "api (getOKRBusinessUnits okrId) w =
     response_data (apiClient_get (''/api/okrs/'' @ okrId @ ''/business_units/'') w)"
| "api (assignBusinessUnitsToOKR okrId businessUnitIds) w =
     response_data (apiClient_post (''/api/okrs/'' @ okrId @ ''/assign_business_units/'') businessUnitIds w)"
| "api getUsers w =
     response_data_or_empty (apiCallWithRetry (apiClient_get ''/api/users/'') 3 1000 w)"
| "api (getUser userId) w = response_data (apiClient_get (''/api/users/'' @ userId @ ''/'') w)"
| "api getOKRs w = response_data (apiClient_get ''/api/okrs/'' w)"
| "api (getOKR okrId) w = response_data (apiClient_get (''/api/okrs/'' @ okrId @ ''/'') w)"
| "api (createOKR okrData) w =
     response_data (apiClient_post ''/api/okrs/'' (JObj (createOKR_transformedData okrData)) w)"
| "api (updateOKR okrId okrData) w =
     (case updateOKR_transformedData okrData of
        Inl error \<Rightarrow> (Inl error, w)
      | Inr transformedData \<Rightarrow>
          response_data (apiClient_put (''/api/okrs/'' @ okrId @ ''/'') (JObj transformedData) w))"
| "api (deleteOKR okrId) w = response_data (apiClient_delete (''/api/okrs/'' @ okrId @ ''/'') w)"
| "api (getChildOKRs parentOkrId) w =
     response_data (apiClient_get (''/api/okrs/?parent_okr='' @ parentOkrId) w)"
| "api (getOKRAssignedUsers okrId) w =
     response_data (apiClient_get (''/api/okrs/'' @ okrId @ ''/assigned_users/'') w)"
| "api (addUserToOKR okrId userData) w =
     response_data (apiClient_post (''/api/okrs/'' @ okrId @ ''/assign_user/'') userData w)"
| "api (removeUserFromOKR okrId userId) w =
     response_data (apiClient_delete (''/api/okrs/'' @ okrId @ ''/remove_user/'' @ userId @ ''/'') w)"
| "api (setPrimaryUserForOKR okrId userId) w =
     response_data (apiClient_post (''/api/okrs/'' @ okrId @ ''/set_primary_user/'') (JObj [(''user_id'', userId)]) w)"
| "api getTasks w = response_data (apiClient_get ''/api/tasks/'' w)"
| "api (getTask taskId) w = response_data (apiClient_get (''/api/tasks/'' @ taskId @ ''/'') w)"
| "api (createTask taskData) w = response_data (apiClient_post ''/api/tasks/'' taskData w)"
| "api (updateTask taskId taskData) w =
     response_data (apiClient_put (''/api/tasks/'' @ taskId @ ''/'') taskData w)"
| "api (deleteTask taskId) w = response_data (apiClient_delete (''/api/tasks/'' @ taskId @ ''/'') w)"
| "api (getOKRTasks okrId) w =
     response_data (apiClient_get (''/api/tasks/?linked_to_okr='' @ okrId) w)"
| "api (getUserOKRs userId) w = response_data (apiClient_get (''/api/okrs/user/'' @ userId @ ''/'') w)"
| "api (getUserTasks userId) w =
     response_data (apiClient_get (''/api/tasks/?assigned_to='' @ userId) w)"
| "api getTaskChallenges w = response_data (apiClient_get ''/api/task-challenges/'' w)"
| "api (getTaskChallenge challengeId) w =
     response_data (apiClient_get (''/api/task-challenges/'' @ challengeId @ ''/'') w)"
| "api (createTaskChallenge challengeData) w =
     response_data (apiClient_post ''/api/task-challenges/'' challengeData w)"
| "api (updateTaskChallenge challengeId challengeData) w =
     response_data (apiClient_put (''/api/task-challenges/'' @ challengeId @ ''/'') challengeData w)"
| "api (deleteTaskChallenge challengeId) w =
     response_data (apiClient_delete (''/api/task-challenges/'' @ challengeId @ ''/'') w)"
| "api (getTaskChallengesByTask taskId) w =
     response_data (apiClient_get (''/api/task-challenges/by_task/?task_id='' @ taskId) w)"

section \<open>The writers of the token slot\<close>

text \<open>\<^verbatim>\<open>localStorage.setItem\<close> and \<^verbatim>\<open>localStorage.removeItem\<close>; where there is no
  window there is no store to change.\<close>

definition setItem :: "string \<Rightarrow> string \<Rightarrow> world \<Rightarrow> world" where
  "setItem k v w = w\<lparr>localStorage := map_option (\<lambda>storage. storage(k \<mapsto> v)) (localStorage w)\<rparr>"

definition removeItem :: "string \<Rightarrow> world \<Rightarrow> world" where
  "removeItem k w = w\<lparr>localStorage := map_option (\<lambda>storage. storage(k := None)) (localStorage w)\<rparr>"

text \<open>\<^verbatim>\<open>handleLogin\<close> of the home page (src/unnamed/part_001, 44-51) and of the tasks
  page (src/unnamed/part_000, 64-74, which then fetches the tasks), and
  \<^verbatim>\<open>handleLogout\<close> of the header (src/components/Header.js, 9-16). Component state,
  routing and the page reload do not touch the store.\<close>

definition Home_handleLogin :: "world \<Rightarrow> world" where
  "Home_handleLogin w = setItem ''auth_token'' ''mock_token'' w"

definition TasksPage_handleLogin :: "world \<Rightarrow> world" where
  "TasksPage_handleLogin w = snd (api getTasks (setItem ''auth_token'' ''mock_token'' w))"

definition handleLogout :: "world \<Rightarrow> world" where
  "handleLogout w = removeItem ''auth_token'' w"

text \<open>The token the storage slot holds, if any.\<close>

definition stored_token :: "world \<Rightarrow> string option" where
  "stored_token w = (case localStorage w of None \<Rightarrow> None | Some storage \<Rightarrow> storage ''auth_token'')"

text \<open>The events a run from \<open>w\<close> to \<open>w'\<close> has added to the log.\<close>

definition new_events :: "world \<Rightarrow> world \<Rightarrow> event list" where
  "new_events w w' = drop (length (trace w)) (trace w')"

text \<open>Any sequence of API calls, one after the other.\<close>

fun run_calls :: "api_call list \<Rightarrow> world \<Rightarrow> world" where
  "run_calls [] w = w"
| "run_calls (call # calls) w = run_calls calls (snd (api call w))"

text \<open>The \<^verbatim>\<open>Authorization\<close> header of a request, if it carries one.\<close>

definition authorization :: "config \<Rightarrow> string option" where
  "authorization c = map_of (headers c) ''Authorization''"

text \<open>The header the interceptor gives a request in world \<open>w\<close>.\<close>

definition bearer :: "world \<Rightarrow> string option" where
  "bearer w =
     (case stored_token w of
        None \<Rightarrow> None
      | Some token \<Rightarrow> if token \<noteq> [] then Some (''Bearer '' @ token) else None)"

text \<open>
  What every operation of the client does to the world, and no more: the environment,
  the store and the network are as before, the log has grown, and each request added
  carries the header of \<open>bearer\<close>.
\<close>

definition extends :: "world \<Rightarrow> world \<Rightarrow> bool" where
  "extends w w' \<longleftrightarrow>
     NEXT_PUBLIC_API_URL w' = NEXT_PUBLIC_API_URL w \<and>
     localStorage w' = localStorage w \<and>
     server w' = server w \<and>
     (\<exists>evs. trace w' = trace w @ evs \<and> (\<forall>c \<in> set (sent evs). authorization c = bearer w))"

section \<open>Concrete worlds and payloads\<close>

text \<open>A network that fails every request with a transient error: unreachable, then a
  timeout, then unreachable again.\<close>

definition network_down :: "nat \<Rightarrow> config \<Rightarrow> axios_error + response" where
  "network_down n c =
     Inl \<lparr>code = JStr (if n = 1 then ''ECONNABORTED'' else ''ERR_NETWORK''),
          message = (if n = 0 then ''first'' else if n = 1 then ''second'' else ''third''),
          response = None\<rparr>"

text \<open>A backend that answers every request with HTTP 404.\<close>

definition not_found :: "nat \<Rightarrow> config \<Rightarrow> axios_error + response" where
  "not_found n c =
     Inl \<lparr>code = JStr ''ERR_BAD_REQUEST'',
          message = ''Request failed with status code 404'',
          response = Some \<lparr>data = JNull, status = 404\<rparr>\<rparr>"

text \<open>A backend that answers every request with an empty list.\<close>

definition backend_up :: "nat \<Rightarrow> config \<Rightarrow> axios_error + response" where
  "backend_up n c = Inr \<lparr>data = JArr [], status = 200\<rparr>"

text \<open>A browser whose store holds the given token (or nothing), in front of the given
  network, with an empty log.\<close>

definition browser :: "string option \<Rightarrow> (nat \<Rightarrow> config \<Rightarrow> axios_error + response) \<Rightarrow> world" where
  "browser token srv =
     \<lparr>NEXT_PUBLIC_API_URL = None,
      localStorage = Some (case token of None \<Rightarrow> Map.empty | Some t \<Rightarrow> [''auth_token'' \<mapsto> t]),
      server = srv,
      trace = []\<rparr>"

text \<open>The request a browser without token builds for a GET of the given path.\<close>

definition plain_get :: "string \<Rightarrow> config" where
  "plain_get u =
     \<lparr>baseURL = ''http://localhost:8000'', url = u, verb = GET,
      headers = [(''Content-Type'', ''application/json'')],
      payload = JUndefined, timeout = 15000\<rparr>"

text \<open>An entry of \<^verbatim>\<open>assigned_users\<close>: \<^verbatim>\<open>{user_id, is_primary}\<close>.\<close>

definition assigned_user :: "jsval \<times> bool \<Rightarrow> jsval" where
  "assigned_user u = JObj [(''user_id'', fst u), (''is_primary'', JBool (snd u))]"

text \<open>The identifier of the first entry marked primary; \<^verbatim>\<open>undefined\<close> when none is.\<close>

definition primary_of :: "(jsval \<times> bool) list \<Rightarrow> jsval" where
  "primary_of us = (case filter snd us of [] \<Rightarrow> JUndefined | u # _ \<Rightarrow> fst u)"

section \<open>Basic facts\<close>

declare retry_loop.simps [simp del]

lemma get_update: "get (AList.update k v ps) k' = (if k' = k then v else get ps k')"
  by (simp add: get_def update_conv')

lemma get_delete: "get (AList.delete k ps) k' = (if k' = k then JUndefined else get ps k')"
  by (simp add: get_def delete_conv')

lemma sent_append: "sent (xs @ ys) = sent xs @ sent ys"
  by (induction xs rule: sent.induct) simp_all

lemma request_interceptor_trace [simp]:
  "request_interceptor (w\<lparr>trace := t\<rparr>) c = request_interceptor w c"
  by (simp add: request_interceptor_def)

lemma API_BASE_URL_trace [simp]: "API_BASE_URL (w\<lparr>trace := t\<rparr>) = API_BASE_URL w"
  by (simp add: API_BASE_URL_def)

lemma snd_response_data: "snd (response_data r) = snd r"
  by (simp add: response_data_def split: prod.splits sum.splits)

lemma snd_response_data_or_empty: "snd (response_data_or_empty r) = snd r"
  by (simp add: response_data_or_empty_def split: prod.splits sum.splits)

section \<open>What a call leaves untouched\<close>

lemma bearer_cong: "localStorage w' = localStorage w \<Longrightarrow> bearer w' = bearer w"
  by (simp add: bearer_def stored_token_def)

lemma extends_refl: "extends w w"
  by (simp add: extends_def)

lemma extends_trans:
  assumes "extends w w'" and "extends w' w''"
  shows "extends w w''"
proof -
  from assms(1) obtain evs where e1: "trace w' = trace w @ evs"
    and h1: "\<forall>c \<in> set (sent evs). authorization c = bearer w"
    and f1: "NEXT_PUBLIC_API_URL w' = NEXT_PUBLIC_API_URL w" "localStorage w' = localStorage w"
      "server w' = server w"
    by (auto simp: extends_def)
  from assms(2) obtain evs' where e2: "trace w'' = trace w' @ evs'"
    and h2: "\<forall>c \<in> set (sent evs'). authorization c = bearer w'"
    and f2: "NEXT_PUBLIC_API_URL w'' = NEXT_PUBLIC_API_URL w'" "localStorage w'' = localStorage w'"
      "server w'' = server w'"
    by (auto simp: extends_def)
  have b: "bearer w' = bearer w" using f1(2) by (rule bearer_cong)
  have "trace w'' = trace w @ (evs @ evs')" using e1 e2 by simp
  moreover have "\<forall>c \<in> set (sent (evs @ evs')). authorization c = bearer w"
    using h1 h2 b by (auto simp: sent_append)
  ultimately show ?thesis using f1 f2 unfolding extends_def by metis
qed

lemma interceptor_authorization:
  "headers c = [(''Content-Type'', ''application/json'')] \<Longrightarrow>
   authorization (request_interceptor w c) = bearer w"
  by (simp add: request_interceptor_def authorization_def bearer_def stored_token_def update_conv'
      split: option.splits)

lemma extends_apiClient_request: "extends w (snd (apiClient_request m u d w))"
  by (simp add: apiClient_request_def dispatch_def extends_def interceptor_authorization)

lemma extends_apiClient_requestD: "apiClient_request m u d w = (r, w') \<Longrightarrow> extends w w'"
  using extends_apiClient_request [of w m u d] by simp

lemma extends_await_timeout: "extends w (await_timeout ms w)"
  by (simp add: await_timeout_def extends_def)

text \<open>The retry loop adds nothing of its own but timers: computation induction along the
  loop, with the world generalised by the induction rule.\<close>

lemma extends_retry_loop:
  assumes step: "\<And>w. extends w (snd (apiCall w))"
  shows "extends w (snd (retry_loop apiCall retryCount initialDelayMs attempt lastError w))"
  using step
proof (induction apiCall retryCount initialDelayMs attempt lastError w rule: retry_loop.induct)
  case (1 apiCall retryCount initialDelayMs attempt lastError w)
  show ?case
  proof (cases "attempt < retryCount")
    case False
    then show ?thesis by (subst retry_loop.simps) (simp add: extends_refl)
  next
    case True
    obtain r w' where call: "apiCall w = (r, w')" by (cases "apiCall w")
    have ext: "extends w w'" using "1.prems" [of w] call by simp
    show ?thesis
    proof (cases r)
      case (Inr v)
      then show ?thesis using True call ext by (subst retry_loop.simps) simp
    next
      case (Inl error)
      show ?thesis
      proof (cases "error_code error")
        case (Inl e)
        then show ?thesis using True call ext \<open>r = Inl error\<close> by (subst retry_loop.simps) simp
      next
        case (Inr c)
        show ?thesis
        proof (cases "\<not> truthy c \<or> (c \<noteq> JStr ''ERR_NETWORK'' \<and> c \<noteq> JStr ''ECONNABORTED'')")
          case stop: True
          then show ?thesis using True call ext \<open>r = Inl error\<close> Inr
            by (subst retry_loop.simps) simp
        next
          case again: False
          let ?w2 = "await_timeout (initialDelayMs * 2 ^ attempt) w'"
          have "extends ?w2 (snd (retry_loop apiCall retryCount initialDelayMs (attempt + 1) error ?w2))"
            using "1.IH" [OF True call [symmetric] \<open>r = Inl error\<close> Inr again refl] "1.prems" by simp
          then have "extends w (snd (retry_loop apiCall retryCount initialDelayMs (attempt + 1) error ?w2))"
            using ext extends_await_timeout extends_trans by blast
          then show ?thesis using True call \<open>r = Inl error\<close> Inr again
            by (subst retry_loop.simps) (auto simp: Let_def)
        qed
      qed
    qed
  qed
qed

lemma extends_apiCallWithRetry:
  "extends w (snd (apiCallWithRetry (apiClient_request m u d) retryCount initialDelayMs w))"
  unfolding apiCallWithRetry_def by (rule extends_retry_loop) (rule extends_apiClient_request)

lemma extends_api: "extends w (snd (api call w))"
proof (cases call)
  case checkBackendConnection
  then show ?thesis
    by (auto simp: apiClient_get_def split: prod.splits sum.splits thrown.splits
             dest: extends_apiClient_requestD)
next
  case (updateOKR okrId okrData)
  then show ?thesis
    by (simp add: snd_response_data apiClient_put_def extends_apiClient_request extends_refl
             split: sum.splits)
qed (simp_all add: snd_response_data snd_response_data_or_empty apiClient_get_def apiClient_post_def
        apiClient_put_def apiClient_delete_def extends_apiClient_request extends_apiCallWithRetry)

lemma new_events_extends:
  assumes "extends w w'"
  shows "\<forall>c \<in> set (sent (new_events w w')). authorization c = bearer w"
  using assms by (auto simp: extends_def new_events_def)

lemma localStorage_run_calls: "localStorage (run_calls calls w) = localStorage w"
proof (induction calls arbitrary: w)
  case Nil
  show ?case by simp
next
  case (Cons call calls)
  have "localStorage (snd (api call w)) = localStorage w"
    using extends_api [of w call] by (simp add: extends_def)
  with Cons.IH [of "snd (api call w)"] show ?case by simp
qed

section \<open>The retry combinator\<close>

lemma retry_loop_stop:
  assumes "attempt < retryCount" and "apiCall w = (Inl error, w')" and "error_code error = Inr c"
    and "c \<noteq> JStr ''ERR_NETWORK''" and "c \<noteq> JStr ''ECONNABORTED''"
  shows "retry_loop apiCall retryCount initialDelayMs attempt lastError w = (Inl error, w')"
  using assms by (subst retry_loop.simps) simp

text \<open>
  When every request fails with one of the two retried codes, a call wrapped with the
  default arguments sends three requests, awaits a timer after each of them, the third
  too, and then throws the third error.
\<close>

lemma retry_all_transient:
  assumes "\<forall>n c. \<exists>e. server w n c = Inl e \<and>
             (code e = JStr ''ERR_NETWORK'' \<or> code e = JStr ''ECONNABORTED'')"
  shows "\<exists>c e. apiCallWithRetry (apiClient_request m u d) 3 1000 w =
           (Inl (Axios e),
            w\<lparr>trace := trace w @
                 [Request c, Sleep 1000, Request c, Sleep 2000, Request c, Sleep 4000]\<rparr>)
          \<and> server w (length (sent (trace w)) + 2) c = Inl e"
proof -
  define k where "k = length (sent (trace w))"
  define c where "c = request_interceptor w
          \<lparr>baseURL = API_BASE_URL w, url = u, verb = m,
           headers = [(''Content-Type'', ''application/json'')],
           payload = d, timeout = 15000\<rparr>"
  obtain e0 where e0: "server w k c = Inl e0"
    "code e0 = JStr ''ERR_NETWORK'' \<or> code e0 = JStr ''ECONNABORTED''"
    using assms by blast
  obtain e1 where e1: "server w (Suc k) c = Inl e1"
    "code e1 = JStr ''ERR_NETWORK'' \<or> code e1 = JStr ''ECONNABORTED''"
    using assms by blast
  obtain e2 where e2: "server w (Suc (Suc k)) c = Inl e2"
    "code e2 = JStr ''ERR_NETWORK'' \<or> code e2 = JStr ''ECONNABORTED''"
    using assms by blast
  have "apiCallWithRetry (apiClient_request m u d) 3 1000 w =
           (Inl (Axios e2),
            w\<lparr>trace := trace w @
                 [Request c, Sleep 1000, Request c, Sleep 2000, Request c, Sleep 4000]\<rparr>)"
    using e0 e1 e2
    by (auto simp: apiCallWithRetry_def retry_loop.simps apiClient_request_def dispatch_def
        await_timeout_def sent_append Let_def k_def [symmetric] c_def [symmetric])
  then show ?thesis using e2 by (auto simp: k_def)
qed

text \<open>
  Claim C1. When every attempt of a wrapped operation fails with a transient error, the
  client makes three attempts, waits 1000 ms before the second and 2000 ms before the
  third and no other delay, and ends with the error of the last attempt.

  The code does not do this: after the third failed attempt it still computes
  \<^verbatim>\<open>1000 * 2^2\<close>, logs "retrying in 4000ms" and awaits that timer, and only then leaves
  the loop and throws. The run below is the wrapped GET of \<^verbatim>\<open>/api/users/\<close> against a
  network that is down: three requests, the last error as the result, and the timers
  1000, 2000 and 4000.
\<close>

theorem retry_sleeps_after_last_attempt:
  "apiCallWithRetry (apiClient_get ''/api/users/'') 3 1000 (browser None network_down) =
     (Inl (Axios \<lparr>code = JStr ''ERR_NETWORK'', message = ''third'', response = None\<rparr>),
      (browser None network_down)
        \<lparr>trace := [Request (plain_get ''/api/users/''), Sleep 1000,
                   Request (plain_get ''/api/users/''), Sleep 2000,
                   Request (plain_get ''/api/users/''), Sleep 4000]\<rparr>)"
  by (simp add: apiCallWithRetry_def retry_loop.simps apiClient_get_def apiClient_request_def
      dispatch_def request_interceptor_def API_BASE_URL_def browser_def network_down_def
      await_timeout_def plain_get_def Let_def)

text \<open>
  Claim C2. When the attempt of a wrapped operation fails with an error that is not
  classified transient (its \<^verbatim>\<open>code\<close> is neither \<^verbatim>\<open>ERR_NETWORK\<close> nor
  \<^verbatim>\<open>ECONNABORTED\<close>: an HTTP error status, a request that could not be built), the
  combinator ends with exactly that error in exactly the world the one attempt left: no
  timer, no second attempt. This holds for every operation, every positive retry count
  and every initial delay.
\<close>

theorem retry_non_transient_once:
  assumes "0 < retryCount" and "apiCall w = (Inl error, w')" and "error_code error = Inr c"
    and "c \<noteq> JStr ''ERR_NETWORK''" and "c \<noteq> JStr ''ECONNABORTED''"
  shows "apiCallWithRetry apiCall retryCount initialDelayMs w = (Inl error, w')"
  unfolding apiCallWithRetry_def using assms by (rule retry_loop_stop)

text \<open>The wrapped GET of \<^verbatim>\<open>/api/users/\<close> against a backend that answers 404: one
  request in the log, no timer, the 404 as the result.\<close>

theorem retry_non_transient_once_witness:
  "apiCallWithRetry (apiClient_get ''/api/users/'') 3 1000 (browser None not_found) =
     (Inl (Axios \<lparr>code = JStr ''ERR_BAD_REQUEST'',
                   message = ''Request failed with status code 404'',
                   response = Some \<lparr>data = JNull, status = 404\<rparr>\<rparr>),
      (browser None not_found)\<lparr>trace := [Request (plain_get ''/api/users/'')]\<rparr>)"
  by (rule retry_non_transient_once [where c = "JStr ''ERR_BAD_REQUEST''"])
     (simp_all add: apiClient_get_def apiClient_request_def dispatch_def request_interceptor_def
        API_BASE_URL_def browser_def not_found_def plain_get_def)

section \<open>The Objective payloads\<close>

text \<open>What the two operations hand to the network is the transformed object: one POST to
  \<^verbatim>\<open>/api/okrs/\<close>, one PUT to \<^verbatim>\<open>/api/okrs/<id>/\<close>. An update whose transform throws
  sends nothing.\<close>

lemma createOKR_sends:
  "map payload (sent (new_events w (snd (api (createOKR okrData) w)))) =
     [JObj (createOKR_transformedData okrData)] \<and>
   map verb (sent (new_events w (snd (api (createOKR okrData) w)))) = [POST] \<and>
   map url (sent (new_events w (snd (api (createOKR okrData) w)))) = [''/api/okrs/'']"
  by (simp add: snd_response_data apiClient_post_def apiClient_request_def dispatch_def
      new_events_def request_interceptor_def split: option.splits)

lemma updateOKR_sends:
  assumes "updateOKR_transformedData okrData = Inr out"
  shows "map payload (sent (new_events w (snd (api (updateOKR okrId okrData) w)))) = [JObj out] \<and>
   map verb (sent (new_events w (snd (api (updateOKR okrId okrData) w)))) = [PUT] \<and>
   map url (sent (new_events w (snd (api (updateOKR okrId okrData) w)))) =
     [''/api/okrs/'' @ okrId @ ''/'']"
  using assms
  by (simp add: snd_response_data apiClient_put_def apiClient_request_def dispatch_def
      new_events_def request_interceptor_def split: option.splits)

lemma updateOKR_throws_sends_nothing:
  assumes "updateOKR_transformedData okrData = Inl e"
  shows "api (updateOKR okrId okrData) w = (Inl e, w)"
  using assms by simp

text \<open>The update transform returns whenever \<^verbatim>\<open>assigned_users\<close> is absent or falsy (and,
  by \<open>updateOKR_splits_assigned_users\<close> below, whenever it is a list of entries).\<close>

lemma updateOKR_returns:
  assumes "\<not> truthy (get okrData ''assigned_users'')"
  shows "\<exists>out. updateOKR_transformedData okrData = Inr out"
  using assms
  by (simp add: updateOKR_transformedData_def assigned_user_ids_of_def primary_user_id_of_def Let_def)

text \<open>A falsy \<^verbatim>\<open>business_units\<close> is neither used as a fallback nor stripped by the
  update.\<close>

lemma updateOKR_falsy_business_units:
  "updateOKR_transformedData [(''business_units'', JNull)] =
     Inr [(''business_units'', JNull), (''assigned_user_ids'', JArr []),
          (''primary_user_id'', JNull), (''business_unit_ids'', JArr [])]"
  by (simp add: updateOKR_transformedData_def assigned_user_ids_of_def primary_user_id_of_def
        get_def js_or_def Let_def)

lemma map_user_id_entries: "map_user_id (map assigned_user us) = Inr (map fst us)"
  by (induction us) (simp_all add: assigned_user_def get_def)

lemma find_is_primary_entries:
  "find_is_primary (map assigned_user us) =
     Inr (case filter snd us of [] \<Rightarrow> JUndefined | u # _ \<Rightarrow> assigned_user u)"
  by (induction us) (simp_all add: assigned_user_def get_def)

text \<open>
  \<^verbatim>\<open>updateOKR\<close> does split a list of \<^verbatim>\<open>{user_id, is_primary}\<close> entries: the
  identifiers in order, the identifier of the first primary entry (\<^verbatim>\<open>undefined\<close>,
  which JSON leaves out, when there is none), and no \<^verbatim>\<open>assigned_users\<close> key.
\<close>

lemma updateOKR_splits_assigned_users:
  assumes "map_of okrData ''assigned_users'' = Some (JArr (map assigned_user us))"
  shows "\<exists>out. updateOKR_transformedData okrData = Inr out \<and>
           map_of out ''assigned_user_ids'' = Some (JArr (map fst us)) \<and>
           map_of out ''primary_user_id'' = Some (primary_of us) \<and>
           map_of out ''assigned_users'' = None"
proof -
  have g: "get okrData ''assigned_users'' = JArr (map assigned_user us)"
    using assms by (simp add: get_def)
  have a: "assigned_user_ids_of okrData = Inr (JArr (map fst us))"
    by (simp add: assigned_user_ids_of_def g map_user_id_entries)
  have p: "primary_user_id_of okrData = Inr (primary_of us)"
    unfolding primary_user_id_of_def g
    by (cases "filter snd us")
       (simp_all add: find_is_primary_entries primary_of_def assigned_user_def get_def Let_def)
  show ?thesis
    by (simp add: updateOKR_transformedData_def a p Let_def get_update get_delete g
        update_conv' delete_conv')
qed

text \<open>
  Claim C3. Create and update both turn \<^verbatim>\<open>assigned_users\<close> into
  \<^verbatim>\<open>assigned_user_ids\<close> and \<^verbatim>\<open>primary_user_id\<close> and drop the \<^verbatim>\<open>assigned_users\<close> key.

  \<^verbatim>\<open>createOKR\<close> does not, although its own comment announces the conversion and
  \<^verbatim>\<open>updateOKR\<close> performs it: it reads \<^verbatim>\<open>okrData.assigned_user_ids\<close> and
  \<^verbatim>\<open>okrData.primary_user_id\<close> and never looks at \<^verbatim>\<open>assigned_users\<close>. For the
  payload with users 1 (primary) and 2 the outgoing object still has
  \<^verbatim>\<open>assigned_users\<close>, an empty \<^verbatim>\<open>assigned_user_ids\<close> and a null
  \<^verbatim>\<open>primary_user_id\<close>.
\<close>

theorem createOKR_keeps_assigned_users:
  "createOKR_transformedData
     [(''assigned_users'', JArr [assigned_user (JNum 1, True), assigned_user (JNum 2, False)])] =
   [(''assigned_users'', JArr [assigned_user (JNum 1, True), assigned_user (JNum 2, False)]),
    (''name'', JUndefined),
    (''assigned_user_ids'', JArr []),
    (''primary_user_id'', JNull),
    (''business_unit_ids'', JArr [])]"
  by (simp add: createOKR_transformedData_def get_def js_or_def)

text \<open>
  Claim C6 as stated (create and update both fall back from \<^verbatim>\<open>business_unit_ids\<close> to
  \<^verbatim>\<open>business_units\<close> and strip the redundant field) fails for create, which reads
  \<^verbatim>\<open>business_unit_ids\<close> only: a payload with just \<^verbatim>\<open>business_units: [1, 2]\<close> goes out
  with \<^verbatim>\<open>business_unit_ids: []\<close> and \<^verbatim>\<open>business_units\<close> still in place.
\<close>

theorem createOKR_ignores_business_units:
  "map_of (createOKR_transformedData [(''business_units'', JArr [JNum 1, JNum 2])])
     ''business_unit_ids'' = Some (JArr []) \<and>
   map_of (createOKR_transformedData [(''business_units'', JArr [JNum 1, JNum 2])])
     ''business_units'' = Some (JArr [JNum 1, JNum 2])"
  by (simp add: createOKR_transformedData_def get_def js_or_def)

text \<open>
  Claim C6, amended. For the update operation and a payload whose \<^verbatim>\<open>business_units\<close> is
  truthy (every list is): when \<^verbatim>\<open>business_unit_ids\<close> is absent the outgoing
  \<^verbatim>\<open>business_unit_ids\<close> is the value of \<^verbatim>\<open>business_units\<close>, when it is present and
  truthy it is sent as it is, and in both cases \<^verbatim>\<open>business_units\<close> is stripped. The
  create operation has no fallback: it sends \<^verbatim>\<open>business_unit_ids || []\<close> and leaves
  \<^verbatim>\<open>business_units\<close> in the payload.
\<close>

theorem business_units_fallback:
  assumes "updateOKR_transformedData okrData = Inr out"
    and "map_of okrData ''business_units'' = Some units" and "truthy units"
  shows "(map_of okrData ''business_unit_ids'' = None \<longrightarrow>
            map_of out ''business_unit_ids'' = Some units) \<and>
         (\<forall>ids. map_of okrData ''business_unit_ids'' = Some ids \<and> truthy ids \<longrightarrow>
                  map_of out ''business_unit_ids'' = Some ids) \<and>
         map_of out ''business_units'' = None \<and>
         map_of (createOKR_transformedData okrData) ''business_unit_ids'' =
           Some (js_or (get okrData ''business_unit_ids'') (JArr [])) \<and>
         map_of (createOKR_transformedData okrData) ''business_units'' = Some units"
proof -
  have u: "get okrData ''business_units'' = units" using assms(2) by (simp add: get_def)
  have upd: "(map_of okrData ''business_unit_ids'' = None \<longrightarrow>
            map_of out ''business_unit_ids'' = Some units) \<and>
         (\<forall>ids. map_of okrData ''business_unit_ids'' = Some ids \<and> truthy ids \<longrightarrow>
                  map_of out ''business_unit_ids'' = Some ids) \<and>
         map_of out ''business_units'' = None"
    using assms(1,3)
    by (auto simp: updateOKR_transformedData_def Let_def get_update get_delete u js_or_def
        update_conv' delete_conv' get_def [of okrData "''business_unit_ids''"]
        split: sum.splits if_splits)
  have cre: "map_of (createOKR_transformedData okrData) ''business_unit_ids'' =
           Some (js_or (get okrData ''business_unit_ids'') (JArr [])) \<and>
         map_of (createOKR_transformedData okrData) ''business_units'' = Some units"
    using assms(2)
    by (simp add: createOKR_transformedData_def Let_def get_update update_conv' delete_conv')
  from upd cre show ?thesis by blast
qed

text \<open>An update payload with just \<^verbatim>\<open>business_units: [1, 2]\<close>: the transform returns, the
  list goes out as \<^verbatim>\<open>business_unit_ids\<close>, and \<^verbatim>\<open>business_units\<close> is gone.\<close>

theorem business_units_fallback_witness:
  "updateOKR_transformedData [(''business_units'', JArr [JNum 1, JNum 2])] =
     Inr [(''assigned_user_ids'', JArr []), (''primary_user_id'', JNull),
          (''business_unit_ids'', JArr [JNum 1, JNum 2])] \<and>
   map_of [(''assigned_user_ids'', JArr []), (''primary_user_id'', JNull),
           (''business_unit_ids'', JArr [JNum 1, JNum 2])] ''business_unit_ids'' =
     Some (JArr [JNum 1, JNum 2]) \<and>
   map_of [(''assigned_user_ids'', JArr []), (''primary_user_id'', JNull),
           (''business_unit_ids'', JArr [JNum 1, JNum 2])] ''business_units'' = None"
proof -
  have e: "updateOKR_transformedData [(''business_units'', JArr [JNum 1, JNum 2])] =
     Inr [(''assigned_user_ids'', JArr []), (''primary_user_id'', JNull),
          (''business_unit_ids'', JArr [JNum 1, JNum 2])]"
    by (simp add: updateOKR_transformedData_def assigned_user_ids_of_def primary_user_id_of_def
        get_def js_or_def Let_def)
  have m: "map_of [(''business_units'', JArr [JNum 1, JNum 2])] ''business_units'' =
             Some (JArr [JNum 1, JNum 2])"
    by simp
  have t: "truthy (JArr [JNum 1, JNum 2])" by simp
  from business_units_fallback [OF e m t] e show ?thesis by simp
qed

text \<open>
  Claim C7 as stated (every create payload with a \<^verbatim>\<open>title\<close> and no \<^verbatim>\<open>name\<close> goes out
  without a \<^verbatim>\<open>title\<close> key) fails for the empty title: the deletion is guarded by
  \<^verbatim>\<open>if (transformedData.title)\<close>, and the key stays.
\<close>

theorem createOKR_empty_title_kept:
  "map_of [(''title'', JStr '''')] ''name'' = None \<and>
   map_of (createOKR_transformedData [(''title'', JStr '''')]) ''title'' = Some (JStr '''')"
  by (simp add: createOKR_transformedData_def get_def js_or_def)

text \<open>
  Claim C7, amended. For every create payload with a truthy \<^verbatim>\<open>title\<close> (a non-empty
  string, say) and no \<^verbatim>\<open>name\<close>, the outgoing payload has \<^verbatim>\<open>name\<close> equal to that title and
  no \<^verbatim>\<open>title\<close> key.
\<close>

theorem createOKR_title_renamed:
  assumes "map_of okrData ''title'' = Some v" and "truthy v" and "map_of okrData ''name'' = None"
  shows "map_of (createOKR_transformedData okrData) ''name'' = Some v \<and>
         map_of (createOKR_transformedData okrData) ''title'' = None"
  using assms
  by (simp add: createOKR_transformedData_def Let_def get_update update_conv' delete_conv' get_def)

text \<open>The payload of the specification's example, \<^verbatim>\<open>title: "Grow revenue"\<close>.\<close>

theorem createOKR_title_renamed_witness:
  "map_of (createOKR_transformedData [(''title'', JStr ''Grow revenue'')]) ''name'' =
     Some (JStr ''Grow revenue'') \<and>
   map_of (createOKR_transformedData [(''title'', JStr ''Grow revenue'')]) ''title'' = None"
  by (rule createOKR_title_renamed) simp_all

text \<open>
  Claim C10. For every create payload whose \<^verbatim>\<open>title\<close> is falsy (the empty string, say),
  the outgoing payload keeps the \<^verbatim>\<open>title\<close> key with that value next to \<^verbatim>\<open>name\<close> set
  to the same value; the \<^verbatim>\<open>title\<close> key is removed exactly when the title is truthy.
\<close>

theorem createOKR_falsy_title:
  assumes "map_of okrData ''title'' = Some v"
  shows "(\<not> truthy v \<longrightarrow>
            map_of (createOKR_transformedData okrData) ''title'' = Some v \<and>
            map_of (createOKR_transformedData okrData) ''name'' = Some v) \<and>
         (map_of (createOKR_transformedData okrData) ''title'' = None \<longleftrightarrow> truthy v)"
  using assms
  by (simp add: createOKR_transformedData_def Let_def get_update update_conv' delete_conv' get_def)

theorem createOKR_falsy_title_witness:
  "\<not> truthy (JStr '''') \<and>
   map_of (createOKR_transformedData [(''title'', JStr ''''), (''description'', JStr ''d'')])
     ''title'' = Some (JStr '''') \<and>
   map_of (createOKR_transformedData [(''title'', JStr ''''), (''description'', JStr ''d'')])
     ''name'' = Some (JStr '''')"
  using createOKR_falsy_title [of "[(''title'', JStr ''''), (''description'', JStr ''d'')]" "JStr ''''"]
  by simp

section \<open>The token: read on every request, written by none\<close>

text \<open>
  Claim C4 as stated (a token string present in the store always yields the header) fails
  for the empty string: \<^verbatim>\<open>if (token)\<close> rejects it, and the request goes out without
  an \<^verbatim>\<open>Authorization\<close> header.
\<close>

theorem empty_token_no_authorization:
  "stored_token (browser (Some '''') backend_up) = Some '''' \<and>
   map authorization (sent (new_events (browser (Some '''') backend_up)
                              (snd (api getOKRs (browser (Some '''') backend_up))))) = [None]"
  by (simp add: stored_token_def browser_def apiClient_get_def apiClient_request_def dispatch_def
      request_interceptor_def new_events_def authorization_def snd_response_data)

text \<open>
  Claim C4, amended. For every request that any operation of the client sends: when the
  store holds a non-empty token, the request carries \<^verbatim>\<open>Authorization: Bearer <token>\<close>;
  when it holds no token, or the empty string, or there is no store, the request has no
  \<^verbatim>\<open>Authorization\<close> header.
\<close>

theorem authorization_header:
  assumes "c \<in> set (sent (new_events w (snd (api call w))))"
  shows "(\<forall>token. stored_token w = Some token \<and> token \<noteq> [] \<longrightarrow>
            authorization c = Some (''Bearer '' @ token)) \<and>
         (stored_token w = None \<or> stored_token w = Some [] \<longrightarrow> authorization c = None)"
proof -
  have "authorization c = bearer w"
    using new_events_extends [OF extends_api [of w call]] assms by blast
  then show ?thesis by (auto simp: bearer_def)
qed

text \<open>Listing the Objectives with \<^verbatim>\<open>mock_token\<close> in the store, and with an empty
  store.\<close>

theorem authorization_header_witness:
  "stored_token (browser (Some ''mock_token'') backend_up) = Some ''mock_token'' \<and>
   map authorization (sent (new_events (browser (Some ''mock_token'') backend_up)
       (snd (api getOKRs (browser (Some ''mock_token'') backend_up))))) = [Some ''Bearer mock_token''] \<and>
   stored_token (browser None backend_up) = None \<and>
   map authorization (sent (new_events (browser None backend_up)
       (snd (api getOKRs (browser None backend_up))))) = [None]"
proof -
  let ?w = "browser (Some ''mock_token'') backend_up"
  let ?v = "browser None backend_up"
  obtain c where c: "sent (new_events ?w (snd (api getOKRs ?w))) = [c]"
    by (simp add: browser_def apiClient_get_def apiClient_request_def dispatch_def
        new_events_def snd_response_data)
  obtain d where d: "sent (new_events ?v (snd (api getOKRs ?v))) = [d]"
    by (simp add: browser_def apiClient_get_def apiClient_request_def dispatch_def
        new_events_def snd_response_data)
  have t: "stored_token ?w = Some ''mock_token''" by (simp add: stored_token_def browser_def)
  have t': "stored_token ?v = None" by (simp add: stored_token_def browser_def)
  have "authorization c = Some ''Bearer mock_token''"
    using authorization_header [of c ?w getOKRs] c t by simp
  moreover have "authorization d = None"
    using authorization_header [of d ?v getOKRs] d t' by simp
  ultimately show ?thesis using c d t t' by simp
qed

text \<open>
  Claim C8. No operation of the client writes or deletes the token slot: after any
  sequence of API calls the store, and so the stored token, is what it was. The slot is
  written by the two login handlers, which store \<^verbatim>\<open>mock_token\<close>, and cleared by the
  logout handler.
\<close>

theorem api_calls_preserve_token:
  "localStorage (run_calls calls w) = localStorage w \<and>
   stored_token (run_calls calls w) = stored_token w \<and>
   stored_token (Home_handleLogin w) = (if localStorage w = None then None else Some ''mock_token'') \<and>
   stored_token (TasksPage_handleLogin w) = (if localStorage w = None then None else Some ''mock_token'') \<and>
   stored_token (handleLogout w) = None"
proof -
  have a: "localStorage (run_calls calls w) = localStorage w" by (rule localStorage_run_calls)
  have b: "stored_token (run_calls calls w) = stored_token w" by (simp add: stored_token_def a)
  have c: "stored_token (Home_handleLogin w) =
             (if localStorage w = None then None else Some ''mock_token'')"
    by (cases "localStorage w") (simp_all add: stored_token_def Home_handleLogin_def setItem_def)
  have "localStorage (TasksPage_handleLogin w) = localStorage (setItem ''auth_token'' ''mock_token'' w)"
    unfolding TasksPage_handleLogin_def
    using extends_api [of "setItem ''auth_token'' ''mock_token'' w" getTasks]
    by (simp add: extends_def)
  then have d: "stored_token (TasksPage_handleLogin w) =
                  (if localStorage w = None then None else Some ''mock_token'')"
    by (cases "localStorage w") (simp_all add: stored_token_def setItem_def)
  have e: "stored_token (handleLogout w) = None"
    by (cases "localStorage w") (simp_all add: stored_token_def handleLogout_def removeItem_def)
  from a b c d e show ?thesis by simp
qed

text \<open>Three calls, one of them retried against a dead network, with \<^verbatim>\<open>mock_token\<close> in
  the store.\<close>

theorem api_calls_preserve_token_witness:
  "stored_token (run_calls [getUsers, createOKR [(''title'', JStr ''Grow revenue'')], deleteTask ''7'']
      (browser (Some ''mock_token'') network_down)) = Some ''mock_token''"
  using api_calls_preserve_token
    [of "[getUsers, createOKR [(''title'', JStr ''Grow revenue'')], deleteTask ''7'']"
        "browser (Some ''mock_token'') network_down"]
  by (simp add: stored_token_def browser_def)

section \<open>Operations that swallow failures\<close>

lemma retry_loop_fails:
  assumes step: "\<And>w. (\<forall>n c. isl (server w n c)) \<Longrightarrow>
                  isl (fst (apiCall w)) \<and> server (snd (apiCall w)) = server w"
    and down: "\<forall>n c. isl (server w n c)"
  shows "isl (fst (retry_loop apiCall retryCount initialDelayMs attempt lastError w))"
  using step down
proof (induction apiCall retryCount initialDelayMs attempt lastError w rule: retry_loop.induct)
  case (1 apiCall retryCount initialDelayMs attempt lastError w)
  show ?case
  proof (cases "attempt < retryCount")
    case False
    then show ?thesis by (subst retry_loop.simps) simp
  next
    case True
    obtain r w' where call: "apiCall w = (r, w')" by (cases "apiCall w")
    from "1.prems"(1) [OF "1.prems"(2)] call
    obtain error where r: "r = Inl error" and srv: "server w' = server w"
      by (cases r) auto
    show ?thesis
    proof (cases "error_code error")
      case (Inl e)
      then show ?thesis using True call r by (subst retry_loop.simps) simp
    next
      case (Inr c)
      show ?thesis
      proof (cases "\<not> truthy c \<or> (c \<noteq> JStr ''ERR_NETWORK'' \<and> c \<noteq> JStr ''ECONNABORTED'')")
        case stop: True
        then show ?thesis using True call r Inr by (subst retry_loop.simps) auto
      next
        case again: False
        let ?w2 = "await_timeout (initialDelayMs * 2 ^ attempt) w'"
        have "\<forall>n c. isl (server ?w2 n c)"
          using "1.prems"(2) srv by (simp add: await_timeout_def)
        then have "isl (fst (retry_loop apiCall retryCount initialDelayMs (attempt + 1) error ?w2))"
          using "1.IH" [OF True call [symmetric] r Inr again refl] "1.prems"(1) by simp
        then show ?thesis using True call r Inr again
          by (subst retry_loop.simps) (auto simp: Let_def)
      qed
    qed
  qed
qed

lemma apiClient_request_fails:
  "\<forall>n c. isl (server w n c) \<Longrightarrow>
   isl (fst (apiClient_request m u d w)) \<and> server (snd (apiClient_request m u d w)) = server w"
  by (simp add: apiClient_request_def dispatch_def split: sum.splits) (metis sum.disc(2))

lemma retried_get_fails:
  assumes "\<forall>n c. isl (server w n c)"
  shows "fst (response_data_or_empty (apiCallWithRetry (apiClient_get u) 3 1000 w)) = Inr (JArr [])"
proof -
  have "isl (fst (apiCallWithRetry (apiClient_request GET u JUndefined) 3 1000 w))"
    unfolding apiCallWithRetry_def
    by (rule retry_loop_fails [OF _ assms]) (rule apiClient_request_fails)
  then obtain e w' where "apiCallWithRetry (apiClient_get u) 3 1000 w = (Inl e, w')"
    unfolding apiClient_get_def
    by (cases "apiCallWithRetry (apiClient_request GET u JUndefined) 3 1000 w") (auto simp: isl_def)
  then show ?thesis by (simp add: response_data_or_empty_def)
qed

text \<open>Whatever the network does, the two list reads return a value.\<close>

lemma lists_never_throw:
  "\<exists>v. fst (api getDepartments w) = Inr v" "\<exists>v. fst (api getUsers w) = Inr v"
  by (simp_all add: response_data_or_empty_def split: prod.splits sum.splits)

text \<open>
  Claim C5. When every underlying request fails, with whatever kind of failure,
  \<^verbatim>\<open>getDepartments()\<close> and \<^verbatim>\<open>getUsers()\<close> return the empty list and propagate no
  error.
\<close>

theorem lists_empty_on_failure:
  assumes "\<forall>n c. isl (server w n c)"
  shows "fst (api getDepartments w) = Inr (JArr []) \<and> fst (api getUsers w) = Inr (JArr [])"
  using assms by (simp add: retried_get_fails)

theorem lists_empty_on_failure_witness:
  "fst (api getDepartments (browser None network_down)) = Inr (JArr []) \<and>
   fst (api getUsers (browser None network_down)) = Inr (JArr [])"
  by (rule lists_empty_on_failure) (simp add: browser_def network_down_def)

text \<open>
  Claim C9. \<^verbatim>\<open>checkBackendConnection()\<close> never propagates an error: it sends one GET to
  \<^verbatim>\<open>/api/\<close> and returns \<^verbatim>\<open>true\<close> when the server answers it and \<^verbatim>\<open>false\<close> on any
  failure.
\<close>

theorem checkBackendConnection_total:
  "\<exists>c. new_events w (snd (api checkBackendConnection w)) = [Request c] \<and>
        verb c = GET \<and> url c = ''/api/'' \<and>
        fst (api checkBackendConnection w) =
          Inr (JBool (\<not> isl (server w (length (sent (trace w))) c)))"
  by (auto simp: apiClient_get_def apiClient_request_def dispatch_def new_events_def
      request_interceptor_def split: sum.splits option.splits)

theorem checkBackendConnection_total_witness:
  "fst (api checkBackendConnection (browser None backend_up)) = Inr (JBool True) \<and>
   fst (api checkBackendConnection (browser None network_down)) = Inr (JBool False)"
  using checkBackendConnection_total [of "browser None backend_up"]
    checkBackendConnection_total [of "browser None network_down"]
  by (auto simp: browser_def backend_up_def network_down_def)

end
